theory Spec2Isabelle
  imports Complex_Main "HOL-Library.Multiset" "HOL-Library.Product_Lexorder"
begin

section \<open>Numbers and rounding\<close>

text \<open>
  The server computes with JavaScript numbers. They are modelled as exact rationals:
  the binary rounding error of IEEE doubles is outside the model, so a statement proved
  here is a statement about the arithmetic the code writes down, carried out exactly.
  The concrete inputs used below stay away from rounding ties, where a double and the
  exact value could round to different cents.

  \<^verbatim>\<open>Number(x.toFixed(2))\<close>: \<^verbatim>\<open>toFixed\<close> takes the sign off, picks the integer \<open>n\<close>
  with \<open>n / 100\<close> nearest to the magnitude (the larger \<open>n\<close> on a tie) and puts the sign
  back; \<^verbatim>\<open>Number\<close> reads the decimal string back.
\<close>

definition toFixed2 :: "rat \<Rightarrow> rat" where
  "toFixed2 x =
     (if x < 0 then - (of_int \<lfloor>(- x) * 100 + 1 / 2\<rfloor> / 100)
      else of_int \<lfloor>x * 100 + 1 / 2\<rfloor> / 100)"

section \<open>Fee calculation (server/routes.ts)\<close>

definition PLATFORM_FEE_RATE :: rat where
  "PLATFORM_FEE_RATE = 5 / 100"

definition STRIPE_FEE_RATE :: rat where
  "STRIPE_FEE_RATE = 29 / 1000"

definition STRIPE_FIXED_FEE :: rat where
  "STRIPE_FIXED_FEE = 30 / 100"

text \<open>
  What reading a property of the object literal \<^verbatim>\<open>deliveryFees\<close> can give: one of its own
  numbers, \<^verbatim>\<open>undefined\<close>, or a member that every object literal inherits from
  \<^verbatim>\<open>Object.prototype\<close> (a function, or the prototype object itself for \<^verbatim>\<open>__proto__\<close>).
\<close>

datatype js_value = Num rat | Undefined | Inherited

text \<open>
  What a handler's \<^verbatim>\<open>catch\<close> can see: a \<^verbatim>\<open>TypeError\<close> of the interpreter, the error
  of a rejected database statement, or an \<^verbatim>\<open>Error\<close> that the storage code throws itself;
  \<^verbatim>\<open>message\<close> is \<^verbatim>\<open>error.message\<close>.
\<close>

datatype js_error = TypeError string | QueryError string | ThrownError string

fun message :: "js_error \<Rightarrow> string" where
  "message (TypeError m) = m"
| "message (QueryError m) = m"
| "message (ThrownError m) = m"

record fees =
  platformFee :: rat
  processingFee :: rat
  total :: rat

text \<open>
  \<^verbatim>\<open>calculateFees(subtotal, deliveryFee = 0)\<close>: the default value stands in for
  \<^verbatim>\<open>undefined\<close>. With an inherited member as
  \<^verbatim>\<open>deliveryFee\<close>, \<^verbatim>\<open>subtotal + deliveryFee\<close> is a string concatenation, the processing
  fee is \<^verbatim>\<open>NaN\<close>, and \<^verbatim>\<open>total\<close> (a number plus that member) is a string: the first two
  \<^verbatim>\<open>toFixed\<close> calls pass and \<^verbatim>\<open>total.toFixed(2)\<close> throws.
\<close>

definition calculateFees :: "rat \<Rightarrow> js_value \<Rightarrow> js_error + fees" where
  "calculateFees subtotal arg =
     (case (case arg of Undefined \<Rightarrow> Num 0 | v \<Rightarrow> v) of
        Num deliveryFee \<Rightarrow>
          (let platform = subtotal * PLATFORM_FEE_RATE;
               processing = (subtotal + deliveryFee) * STRIPE_FEE_RATE + STRIPE_FIXED_FEE;
               sum = subtotal + platform + processing + deliveryFee
           in Inr \<lparr>platformFee = toFixed2 platform,
                    processingFee = toFixed2 processing,
                    total = toFixed2 sum\<rparr>)
      | _ \<Rightarrow> Inl (TypeError ''total.toFixed is not a function''))"

text \<open>The names every object literal answers to besides its own keys.\<close>

definition object_prototype_keys :: "string list" where
  "object_prototype_keys =
     [''constructor'', ''__defineGetter__'', ''__defineSetter__'', ''hasOwnProperty'',
      ''__lookupGetter__'', ''__lookupSetter__'', ''isPrototypeOf'',
      ''propertyIsEnumerable'', ''toString'', ''valueOf'', ''__proto__'',
      ''toLocaleString'']"

text \<open>
  \<^verbatim>\<open>const deliveryFees = { pickup: 0, 'farmers-market': 1.99, home: 4.99 }\<close> read at a
  string key: \<^verbatim>\<open>deliveryFees[deliveryOption]\<close>.
\<close>

definition deliveryFees :: "string \<Rightarrow> js_value" where
  "deliveryFees k =
     (if k = ''pickup'' then Num 0
      else if k = ''farmers-market'' then Num (199 / 100)
      else if k = ''home'' then Num (499 / 100)
      else if k \<in> set object_prototype_keys then Inherited
      else Undefined)"

text \<open>\<^verbatim>\<open>v || 0\<close>: zero and \<^verbatim>\<open>undefined\<close> are falsy, functions and objects are truthy.\<close>

fun or_zero :: "js_value \<Rightarrow> js_value" where
  "or_zero (Num n) = (if n = 0 then Num 0 else Num n)"
| "or_zero Undefined = Num 0"
| "or_zero Inherited = Inherited"

text \<open>
  The body of \<^verbatim>\<open>POST /api/orders/calculate-fees\<close>, its fields at the types the handler
  uses them at (a number and a string), and the response: the JSON object
  \<^verbatim>\<open>{subtotal, deliveryFee, ...fees}\<close>, or the status and message of the \<^verbatim>\<open>catch\<close> branch.
\<close>

record fee_request =
  req_subtotal :: rat
  req_deliveryOption :: string

record fee_calculation = fees +
  subtotal :: rat
  deliveryFee :: js_value

datatype http_error = Status nat string

definition calculate_fees_route :: "fee_request \<Rightarrow> http_error + fee_calculation" where
  "calculate_fees_route req =
     (let fee = or_zero (deliveryFees (req_deliveryOption req)) in
      case calculateFees (req_subtotal req) fee of
        Inl e \<Rightarrow> Inl (Status 400 (message e))
      | Inr f \<Rightarrow>
          Inr \<lparr>platformFee = platformFee f, processingFee = processingFee f,
               total = total f, subtotal = req_subtotal req, deliveryFee = fee\<rparr>)"

section \<open>Tables (shared/schema.ts)\<close>

text \<open>
  Each table is the list of its rows; a row keeps the columns that the modelled
  operations read or write. Decimal columns hold rationals, timestamps are integers
  (milliseconds), a nullable column is an \<open>option\<close>. A \<^verbatim>\<open>point\<close> is \<open>(x, y)\<close>, longitude
  first, as \<^verbatim>\<open>ST_MakePoint(lng, lat)\<close> builds it.
\<close>

type_synonym point = "rat \<times> rat"

record producer =
  pr_id :: string
  pr_userId :: string
  businessName :: string
  location :: "point option"

record product =
  p_id :: string
  producerId :: string
  name :: string
  description :: "string option"
  category :: string
  price :: rat
  stock :: int
  tags :: "string list option"
  available :: "bool option"
  createdAt :: int


record cart_item =
  c_id :: string
  c_userId :: string
  c_productId :: string
  quantity :: int
  c_createdAt :: int

text \<open>
  \<^verbatim>\<open>InsertOrder\<close> and \<^verbatim>\<open>Order\<close>. The handler stores \<^verbatim>\<open>deliveryFee.toString()\<close>: the field
  holds the value whose text that is.
\<close>

record insert_order =
  o_userId :: string
  status :: string
  o_subtotal :: rat
  o_platformFee :: rat
  o_processingFee :: rat
  o_deliveryFee :: js_value
  o_total :: rat
  deliveryOption :: string
  deliveryAddress :: "string option"
  deliveryTime :: "int option"
  stripePaymentIntentId :: "string option"

record order = insert_order +
  o_id :: string
  o_createdAt :: int
  o_updatedAt :: int

record order_item_data =
  d_productId :: string
  d_quantity :: int
  d_unitPrice :: rat
  d_totalPrice :: rat

record order_item =
  oi_id :: string
  oi_orderId :: string
  oi_productId :: string
  oi_quantity :: int
  unitPrice :: rat
  totalPrice :: rat

record db =
  producers :: "producer list"
  products :: "product list"
  cart :: "cart_item list"
  orders :: "order list"
  orderItems :: "order_item list"

text \<open>The rows of the joins: \<^verbatim>\<open>ProductWithProducer\<close> and \<^verbatim>\<open>CartItemWithProduct\<close>.\<close>

record product_with_producer =
  pwp_product :: product
  pwp_producer :: producer

record cart_item_with_product =
  ci_item :: cart_item
  ci_product :: product_with_producer

section \<open>Storage (server/storage.ts)\<close>

text \<open>
  Every storage method awaits statements sent to the database one by one (the driver is
  \<^verbatim>\<open>drizzle-orm/neon-http\<close>; no method opens a transaction). A statement either takes
  effect as a whole or is rejected and throws: which statements are rejected (a lost
  connection, a violated constraint) is not decided by this code, so it is a parameter,
  giving the error message of each rejected kind of statement.
\<close>

datatype stmt =
  SelectCartItems | SelectCartRow | UpdateCartRow | InsertCartRow | UpdateCartQuantity
  | DeleteCartRow | DeleteCart | InsertOrder | InsertOrderItems

type_synonym faults = "stmt \<Rightarrow> string option"

text \<open>
  \<^verbatim>\<open>products INNER JOIN producers ON products.producer_id = producers.id\<close>, for one
  product row. SQL leaves the order of a join's rows open; the model lists them in table
  order.
\<close>

definition with_producer :: "db \<Rightarrow> product \<Rightarrow> product_with_producer list" where
  "with_producer d p =
     map (\<lambda>pr. \<lparr>pwp_product = p, pwp_producer = pr\<rparr>)
       (filter (\<lambda>pr. pr_id pr = producerId p) (producers d))"

definition cart_rows :: "string \<Rightarrow> db \<Rightarrow> cart_item_with_product list" where
  "cart_rows userId d =
     concat (map (\<lambda>c.
         concat (map (\<lambda>p. map (\<lambda>pp. \<lparr>ci_item = c, ci_product = pp\<rparr>) (with_producer d p))
           (filter (\<lambda>p. p_id p = c_productId c) (products d))))
       (filter (\<lambda>c. c_userId c = userId) (cart d)))"

definition getCartItems :: "faults \<Rightarrow> string \<Rightarrow> db \<Rightarrow> js_error + cart_item_with_product list" where
  "getCartItems fl userId d =
     (case fl SelectCartItems of
        Some m \<Rightarrow> Inl (QueryError m)
      | None \<Rightarrow> Inr (cart_rows userId d))"




definition clearCart :: "faults \<Rightarrow> string \<Rightarrow> db \<Rightarrow> (js_error + unit) \<times> db" where
  "clearCart fl userId d =
     (case fl DeleteCart of
        Some m \<Rightarrow> (Inl (QueryError m), d)
      | None \<Rightarrow> (Inr (), d\<lparr>cart := filter (\<lambda>c. c_userId c \<noteq> userId) (cart d)\<rparr>))"

text \<open>\<^verbatim>\<open>createOrder\<close>: \<^verbatim>\<open>{...insertOrder, id, createdAt, updatedAt}\<close> is inserted and returned.\<close>

definition createOrder ::
  "faults \<Rightarrow> string \<Rightarrow> int \<Rightarrow> insert_order \<Rightarrow> db \<Rightarrow> (js_error + order) \<times> db" where
  "createOrder fl uuid now insertOrder d =
     (let order = insert_order.extend insertOrder (order.fields uuid now now) in
      case fl InsertOrder of
        Some m \<Rightarrow> (Inl (QueryError m), d)
      | None \<Rightarrow> (Inr order, d\<lparr>orders := orders d @ [order]\<rparr>))"

text \<open>
  \<^verbatim>\<open>addOrderItems\<close>; \<open>ids i\<close> is the \<^verbatim>\<open>randomUUID()\<close> drawn for the \<open>i\<close>-th item. Its local
  \<^verbatim>\<open>orderItemsData\<close> is a definition of its own, so that statements can name the rows.
\<close>

definition orderItemsData :: "(nat \<Rightarrow> string) \<Rightarrow> string \<Rightarrow> order_item_data list \<Rightarrow> order_item list" where
  "orderItemsData ids orderId items =
     map (\<lambda>(i, item). \<lparr>oi_id = ids i, oi_orderId = orderId,
                       oi_productId = d_productId item, oi_quantity = d_quantity item,
                       unitPrice = d_unitPrice item, totalPrice = d_totalPrice item\<rparr>)
       (enumerate 0 items)"

definition addOrderItems ::
  "faults \<Rightarrow> (nat \<Rightarrow> string) \<Rightarrow> string \<Rightarrow> order_item_data list \<Rightarrow> db \<Rightarrow> (js_error + unit) \<times> db" where
  "addOrderItems fl ids orderId items d =
     (case fl InsertOrderItems of
        Some m \<Rightarrow> (Inl (QueryError m), d)
      | None \<Rightarrow> (Inr (), d\<lparr>orderItems := orderItems d @ orderItemsData ids orderId items\<rparr>))"

section \<open>Checkout (server/routes.ts, POST /api/orders)\<close>

text \<open>
  The request: the session's user (\<open>None\<close> when \<^verbatim>\<open>req.isAuthenticated()\<close> is false) and
  the body's fields; \<^verbatim>\<open>deliveryTime\<close> is a number of milliseconds when present. The
  response is the created order or a status with a message; the database is returned as
  each statement left it.
\<close>

record order_request =
  req_user :: "string option"
  ord_deliveryOption :: string
  ord_deliveryAddress :: "string option"
  ord_deliveryTime :: "int option"

definition post_orders ::
  "faults \<Rightarrow> string \<Rightarrow> (nat \<Rightarrow> string) \<Rightarrow> int \<Rightarrow> order_request \<Rightarrow> db
     \<Rightarrow> (http_error + order) \<times> db" where
  "post_orders fl uuid ids now req d =
     (case req_user req of
        None \<Rightarrow> (Inl (Status 401 ''Not authenticated''), d)
      | Some userId \<Rightarrow>
          (case getCartItems fl userId d of
             Inl e \<Rightarrow> (Inl (Status 400 (message e)), d)
           | Inr cartItems \<Rightarrow>
               if cartItems = [] then (Inl (Status 400 ''Cart is empty''), d)
               else
                 let sub = foldl (\<lambda>sum item. sum + price (pwp_product (ci_product item))
                                     * of_int (quantity (ci_item item))) 0 cartItems;
                     fee = or_zero (deliveryFees (ord_deliveryOption req))
                 in case calculateFees sub fee of
                      Inl e \<Rightarrow> (Inl (Status 400 (message e)), d)
                    | Inr f \<Rightarrow>
                        (case createOrder fl uuid now
                                \<lparr>o_userId = userId, status = ''pending'', o_subtotal = sub,
                                 o_platformFee = platformFee f,
                                 o_processingFee = processingFee f,
                                 o_deliveryFee = fee, o_total = total f,
                                 deliveryOption = ord_deliveryOption req,
                                 deliveryAddress = ord_deliveryAddress req,
                                 deliveryTime =
                                   (case ord_deliveryTime req of
                                      None \<Rightarrow> None
                                    | Some t \<Rightarrow> if t = 0 then None else Some t),
                                 stripePaymentIntentId = None\<rparr> d of
                           (Inl e, d1) \<Rightarrow> (Inl (Status 400 (message e)), d1)
                         | (Inr order, d1) \<Rightarrow>
                             (let orderItemsData =
                                    map (\<lambda>item.
                                        \<lparr>d_productId = p_id (pwp_product (ci_product item)),
                                         d_quantity = quantity (ci_item item),
                                         d_unitPrice = price (pwp_product (ci_product item)),
                                         d_totalPrice = price (pwp_product (ci_product item))
                                           * of_int (quantity (ci_item item))\<rparr>) cartItems
                              in case addOrderItems fl ids (o_id order) orderItemsData d1 of
                                   (Inl e, d2) \<Rightarrow> (Inl (Status 400 (message e)), d2)
                                 | (Inr _, d2) \<Rightarrow>
                                     (case clearCart fl userId d2 of
                                        (Inl e, d3) \<Rightarrow> (Inl (Status 400 (message e)), d3)
                                      | (Inr _, d3) \<Rightarrow> (Inr order, d3))))))"

section \<open>Product search (server/storage.ts, searchProducts)\<close>

text \<open>
  \<^verbatim>\<open>ST_Distance\<close> on geography values (metres) and \<^verbatim>\<open>ILIKE\<close> (text, then pattern) are
  functions of the database server, not of this repository: they are parameters.
  \<^verbatim>\<open>ST_DWithin(a, b, r)\<close> is read as \<open>st_distance a b \<le> r\<close>.
\<close>

record pg_functions =
  st_distance :: "point \<Rightarrow> point \<Rightarrow> rat"
  ilike :: "string \<Rightarrow> string \<Rightarrow> bool"

record search_hit =
  hit_product :: product
  hit_producer :: producer
  distance :: "rat option"


text \<open>\<^verbatim>\<open>lat && lng\<close>, and the point \<^verbatim>\<open>ST_MakePoint(lng, lat)\<close> when it holds.\<close>

definition origin :: "rat option \<Rightarrow> rat option \<Rightarrow> point option" where
  "origin lat lng =
     (case lat of
        None \<Rightarrow> None
      | Some y \<Rightarrow>
          (case lng of
             None \<Rightarrow> None
           | Some x \<Rightarrow> if y \<noteq> 0 \<and> x \<noteq> 0 then Some (x, y) else None))"

text \<open>\<^verbatim>\<open>ST_Distance(origin, producers.location)\<close>: \<^verbatim>\<open>NULL\<close> for a producer without location.\<close>

definition metres :: "pg_functions \<Rightarrow> point \<Rightarrow> producer \<Rightarrow> rat option" where
  "metres pg org pr = map_option (st_distance pg org) (location pr)"

text \<open>\<^verbatim>\<open>tags.map(tag => `'${tag}'`).join(',')\<close>, bound as the one element of the array.\<close>

fun join_comma :: "string list \<Rightarrow> string" where
  "join_comma [] = []"
| "join_comma [x] = x"
| "join_comma (x # y # ys) = x @ '','' @ join_comma (y # ys)"

definition quoted_tags :: "string list \<Rightarrow> string" where
  "quoted_tags ts = join_comma (map (\<lambda>tag. [CHR 0x27] @ tag @ [CHR 0x27]) ts)"

text \<open>The \<^verbatim>\<open>WHERE\<close> clause: the conjunction of the conditions pushed for this call.\<close>

definition matches ::
  "pg_functions \<Rightarrow> string \<Rightarrow> point option \<Rightarrow> rat option \<Rightarrow> string option
     \<Rightarrow> string list option \<Rightarrow> product_with_producer \<Rightarrow> bool" where
  "matches pg query org radiusKm categoryArg tagsArg pp =
     (available (pwp_product pp) = Some True
      \<and> (if query = [] then True
         else ilike pg (name (pwp_product pp)) (''%'' @ query @ ''%'')
              \<or> (case description (pwp_product pp) of
                    None \<Rightarrow> False
                  | Some t \<Rightarrow> ilike pg t (''%'' @ query @ ''%'')))
      \<and> (case categoryArg of
            None \<Rightarrow> True
          | Some c \<Rightarrow> if c = [] then True else category (pwp_product pp) = c)
      \<and> (case tagsArg of
            None \<Rightarrow> True
          | Some ts \<Rightarrow>
              if ts = [] then True
              else (case tags (pwp_product pp) of
                      None \<Rightarrow> False
                    | Some have \<Rightarrow> quoted_tags ts \<in> set have))
      \<and> (case org of
            None \<Rightarrow> True
          | Some pt \<Rightarrow>
              (case radiusKm of
                 None \<Rightarrow> True
               | Some r \<Rightarrow>
                   if r = 0 then True
                   else (case metres pg pt (pwp_producer pp) of
                           None \<Rightarrow> False
                         | Some m \<Rightarrow> m \<le> r * 1000))))"

text \<open>\<^verbatim>\<open>ORDER BY\<close> a nullable distance, ascending: PostgreSQL puts \<^verbatim>\<open>NULL\<close> last.\<close>

definition nulls_last :: "rat option \<Rightarrow> bool \<times> rat" where
  "nulls_last v = (case v of None \<Rightarrow> (True, 0) | Some x \<Rightarrow> (False, x))"

text \<open>
  \<^verbatim>\<open>searchProducts(query, lat, lng, radiusKm, category, tags)\<close>. Rows that tie in the
  \<^verbatim>\<open>ORDER BY\<close> key keep their table order (SQL leaves it open).
\<close>

definition searchProducts ::
  "pg_functions \<Rightarrow> string \<Rightarrow> rat option \<Rightarrow> rat option \<Rightarrow> rat option \<Rightarrow> string option
     \<Rightarrow> string list option \<Rightarrow> db \<Rightarrow> search_hit list" where
  "searchProducts pg query lat lng radiusKm categoryArg tagsArg d =
     (let org = origin lat lng;
          selected = filter (matches pg query org radiusKm categoryArg tagsArg)
                       (concat (map (with_producer d) (products d)));
          hits = map (\<lambda>pp. \<lparr>hit_product = pwp_product pp, hit_producer = pwp_producer pp,
                             distance =
                               (case org of
                                  None \<Rightarrow> Some 0
                                | Some pt \<Rightarrow>
                                    map_option (\<lambda>m. m / 1000) (metres pg pt (pwp_producer pp)))\<rparr>)
                   selected
      in case org of
           Some pt \<Rightarrow> sort_key (\<lambda>h. nulls_last (metres pg pt (hit_producer h))) hits
         | None \<Rightarrow> sort_key (\<lambda>h. - createdAt (hit_product h)) hits)"

section \<open>States of the cart table\<close>



text \<open>
  The foreign key of \<^verbatim>\<open>products.producer_id\<close> and the primary key of \<^verbatim>\<open>producers\<close>:
  every product row has exactly one producer row.
\<close>

definition products_have_producer :: "db \<Rightarrow> bool" where
  "products_have_producer d =
     (\<forall>p\<in>set (products d). length (filter (\<lambda>pr. pr_id pr = producerId p) (producers d)) = 1)"

section \<open>Sample data\<close>

text \<open>
  Two producers one degree of latitude apart, three products (one of them not
  available) and a cart table with rows of two users; used for the concrete instances of
  the statements below.
\<close>

definition farm_a :: producer where
  "farm_a = \<lparr>pr_id = ''farm-a'', pr_userId = ''u-a'', businessName = ''Alder Farm'',
             location = Some (10, 45)\<rparr>"

definition farm_b :: producer where
  "farm_b = \<lparr>pr_id = ''farm-b'', pr_userId = ''u-b'', businessName = ''Birch Dairy'',
             location = Some (10, 46)\<rparr>"

definition apples :: product where
  "apples = \<lparr>p_id = ''apples'', producerId = ''farm-a'', name = ''Apples'',
             description = None, category = ''fruits'', price = 350 / 100, stock = 40,
             tags = Some [''organic''], available = Some True, createdAt = 1000\<rparr>"

definition butter :: product where
  "butter = \<lparr>p_id = ''butter'', producerId = ''farm-b'', name = ''Butter'',
             description = Some ''salted'', category = ''dairy'', price = 625 / 100,
             stock = 12, tags = Some [], available = Some True, createdAt = 2000\<rparr>"

definition cider :: product where
  "cider = \<lparr>p_id = ''cider'', producerId = ''farm-a'', name = ''Cider'',
            description = None, category = ''beverages'', price = 900 / 100, stock = 0,
            tags = None, available = Some False, createdAt = 3000\<rparr>"

definition sample_db :: db where
  "sample_db =
     \<lparr>producers = [farm_a, farm_b], products = [apples, butter, cider],
      cart = [\<lparr>c_id = ''c1'', c_userId = ''u1'', c_productId = ''apples'', quantity = 2,
               c_createdAt = 4000\<rparr>,
              \<lparr>c_id = ''c2'', c_userId = ''u1'', c_productId = ''butter'', quantity = 1,
               c_createdAt = 4100\<rparr>,
              \<lparr>c_id = ''c3'', c_userId = ''u2'', c_productId = ''apples'', quantity = 5,
               c_createdAt = 4200\<rparr>],
      orders = [], orderItems = []\<rparr>"

definition sample_checkout :: order_request where
  "sample_checkout = \<lparr>req_user = Some ''u1'', ord_deliveryOption = ''home'',
                      ord_deliveryAddress = Some ''12 Mill Lane'', ord_deliveryTime = None\<rparr>"

definition no_faults :: faults where
  "no_faults = (\<lambda>_. None)"

definition items_insert_fails :: faults where
  "items_insert_fails =
     (\<lambda>s. if s = InsertOrderItems then Some ''connection terminated'' else None)"

definition sample_ids :: "nat \<Rightarrow> string" where
  "sample_ids i = (if i = 0 then ''item-0'' else ''item-1'')"

text \<open>
  A stand-in for the server's functions: 111195 metres for each degree of difference in
  longitude and in latitude, and a pattern match that accepts everything.
\<close>

definition sample_pg :: pg_functions where
  "sample_pg =
     \<lparr>st_distance = (\<lambda>a b. 111195 * (\<bar>fst a - fst b\<bar> + \<bar>snd a - snd b\<bar>)),
      ilike = (\<lambda>t p. True)\<rparr>"




section \<open>Rounding and the fee breakdown\<close>


lemma toFixed2_half_up: "0 \<le> x \<Longrightarrow> toFixed2 x = of_int \<lfloor>x * 100 + 1 / 2\<rfloor> / 100"
  by (simp add: toFixed2_def)


lemma route_number:
  "or_zero (deliveryFees opt) = Num d \<Longrightarrow>
   calculate_fees_route \<lparr>req_subtotal = s, req_deliveryOption = opt\<rparr> =
     Inr \<lparr>platformFee = toFixed2 (s * PLATFORM_FEE_RATE),
          processingFee = toFixed2 ((s + d) * STRIPE_FEE_RATE + STRIPE_FIXED_FEE),
          total = toFixed2 (s + s * PLATFORM_FEE_RATE
                    + ((s + d) * STRIPE_FEE_RATE + STRIPE_FIXED_FEE) + d),
          subtotal = s, deliveryFee = Num d\<rparr>"
  by (simp add: calculate_fees_route_def calculateFees_def Let_def)

lemma or_zero_number: "v \<noteq> Inherited \<Longrightarrow> \<exists>d. or_zero v = Num d"
  by (cases v) simp_all


lemma not_inherited_fee:
  "opt \<notin> set object_prototype_keys \<Longrightarrow> \<exists>d. or_zero (deliveryFees opt) = Num d"
  by (rule or_zero_number) (simp add: deliveryFees_def)

lemma recognized_option_fees:
  "or_zero (deliveryFees ''pickup'') = Num 0"
  "or_zero (deliveryFees ''home'') = Num (499 / 100)"
  "or_zero (deliveryFees ''farmers-market'') = Num (199 / 100)"
  by (simp_all add: deliveryFees_def)

text \<open>
  An option that is neither a key of the table nor a name inherited from
  \<^verbatim>\<open>Object.prototype\<close> is priced with a delivery fee of 0.
\<close>

lemma unrecognized_option_zero_fee:
  assumes "opt \<notin> {''pickup'', ''home'', ''farmers-market''}"
    and "opt \<notin> set object_prototype_keys"
  shows "calculate_fees_route \<lparr>req_subtotal = s, req_deliveryOption = opt\<rparr> =
           Inr \<lparr>platformFee = toFixed2 (s * PLATFORM_FEE_RATE),
                processingFee = toFixed2 ((s + 0) * STRIPE_FEE_RATE + STRIPE_FIXED_FEE),
                total = toFixed2 (s + s * PLATFORM_FEE_RATE
                          + ((s + 0) * STRIPE_FEE_RATE + STRIPE_FIXED_FEE) + 0),
                subtotal = s, deliveryFee = Num 0\<rparr>"
proof -
  from assms have "or_zero (deliveryFees opt) = Num 0"
    by (auto simp: deliveryFees_def)
  then show ?thesis by (rule route_number)
qed




text \<open>
  C2 (as amended). For subtotal 100 and pickup the route returns platformFee 5.00,
  processingFee 3.20 (100 * 0.029 + 0.30), deliveryFee 0 and total 108.20.
\<close>

theorem fees_100_pickup:
  "calculate_fees_route \<lparr>req_subtotal = 100, req_deliveryOption = ''pickup''\<rparr> =
     Inr \<lparr>platformFee = 5, processingFee = 320 / 100, total = 10820 / 100,
          subtotal = 100, deliveryFee = Num 0\<rparr>"
  by code_simp

text \<open>C2 as stated fails: the answer is not processingFee 3.30 with total 108.30.\<close>

theorem fees_100_pickup_not_as_specified:
  "calculate_fees_route \<lparr>req_subtotal = 100, req_deliveryOption = ''pickup''\<rparr> \<noteq>
     Inr \<lparr>platformFee = 5, processingFee = 330 / 100, total = 10830 / 100,
          subtotal = 100, deliveryFee = Num 0\<rparr>"
  by code_simp




text \<open>
  C5. The claim, that every delivery option string other than pickup, home and
  farmers-market is priced with a delivery fee of 0 and never errors, is what the
  \<^verbatim>\<open>|| 0\<close> fallback aims at; the code misses it for the names an object literal
  inherits. For subtotal 100 and the option \<^verbatim>\<open>toString\<close> the lookup finds a function,
  \<^verbatim>\<open>calculateFees\<close> throws and the route answers with status 400.
\<close>

theorem inherited_key_rejected:
  "calculate_fees_route \<lparr>req_subtotal = 100, req_deliveryOption = ''toString''\<rparr> =
     Inl (Status 400 ''total.toFixed is not a function'')"
  by code_simp

section \<open>Checkout: created orders and failure points\<close>

lemma foldl_add_sum_list:
  fixes a :: rat
  shows "foldl (\<lambda>sum x. sum + f x) a xs = a + sum_list (map f xs)"
  by (induction xs arbitrary: a) (simp_all add: add.assoc)

lemma order_ext_sel:
  "o_id (insert_order.extend io (order.fields a b c)) = a"
  "o_userId (insert_order.extend io (order.fields a b c)) = o_userId io"
  "o_subtotal (insert_order.extend io (order.fields a b c)) = o_subtotal io"
  by (simp_all add: insert_order.defs order.defs)

lemma orderItemsData_columns:
  "map totalPrice (orderItemsData ids oid items) = map d_totalPrice items"
  "map unitPrice (orderItemsData ids oid items) = map d_unitPrice items"
  "map oi_quantity (orderItemsData ids oid items) = map d_quantity items"
  "map oi_productId (orderItemsData ids oid items) = map d_productId items"
  "map oi_orderId (orderItemsData ids oid items) = map (\<lambda>_. oid) items"
  "length (orderItemsData ids oid items) = length items"
proof -
  have "map (\<lambda>(i, item). f item) (enumerate n items) = map f items"
    for f :: "order_item_data \<Rightarrow> 'b" and n
    by (induction items arbitrary: n) simp_all
  note * = this [of _ 0]
  show "map totalPrice (orderItemsData ids oid items) = map d_totalPrice items"
    using * [of d_totalPrice] by (simp add: orderItemsData_def split_def comp_def)
  show "map unitPrice (orderItemsData ids oid items) = map d_unitPrice items"
    using * [of d_unitPrice] by (simp add: orderItemsData_def split_def comp_def)
  show "map oi_quantity (orderItemsData ids oid items) = map d_quantity items"
    using * [of d_quantity] by (simp add: orderItemsData_def split_def comp_def)
  show "map oi_productId (orderItemsData ids oid items) = map d_productId items"
    using * [of d_productId] by (simp add: orderItemsData_def split_def comp_def)
  show "map oi_orderId (orderItemsData ids oid items) = map (\<lambda>_. oid) items"
    using * [of "\<lambda>_. oid"] by (simp add: orderItemsData_def split_def comp_def)
  show "length (orderItemsData ids oid items) = length items"
    by (simp add: orderItemsData_def)
qed

text \<open>
  What the checkout returns and leaves behind, by the first statement that is rejected.
\<close>

lemma post_orders_trace:
  assumes u: "req_user req = Some u"
    and rows: "cart_rows u d \<noteq> []"
    and fee: "or_zero (deliveryFees (ord_deliveryOption req)) = Num dfee"
  shows "\<exists>ord its.
           o_id ord = uuid \<and> o_userId ord = u
         \<and> o_subtotal ord = sum_list (map (\<lambda>i. price (pwp_product (ci_product i))
                                              * of_int (quantity (ci_item i))) (cart_rows u d))
         \<and> map totalPrice its = map (\<lambda>i. price (pwp_product (ci_product i))
                                              * of_int (quantity (ci_item i))) (cart_rows u d)
         \<and> map unitPrice its = map (\<lambda>i. price (pwp_product (ci_product i))) (cart_rows u d)
         \<and> map oi_quantity its = map (\<lambda>i. quantity (ci_item i)) (cart_rows u d)
         \<and> map oi_productId its = map (\<lambda>i. p_id (pwp_product (ci_product i))) (cart_rows u d)
         \<and> map oi_orderId its = map (\<lambda>_. uuid) (cart_rows u d)
         \<and> post_orders fl uuid ids now req d =
             (case fl SelectCartItems of
                Some m \<Rightarrow> (Inl (Status 400 m), d)
              | None \<Rightarrow>
             (case fl InsertOrder of
                Some m \<Rightarrow> (Inl (Status 400 m), d)
              | None \<Rightarrow>
             (case fl InsertOrderItems of
                Some m \<Rightarrow> (Inl (Status 400 m), d\<lparr>orders := orders d @ [ord]\<rparr>)
              | None \<Rightarrow>
             (case fl DeleteCart of
                Some m \<Rightarrow>
                  (Inl (Status 400 m),
                   d\<lparr>orders := orders d @ [ord], orderItems := orderItems d @ its\<rparr>)
              | None \<Rightarrow>
                  (Inr ord,
                   d\<lparr>orders := orders d @ [ord], orderItems := orderItems d @ its,
                     cart := filter (\<lambda>c. c_userId c \<noteq> u) (cart d)\<rparr>)))))"
proof -
  define sub where "sub = foldl (\<lambda>sum item. sum + price (pwp_product (ci_product item))
                                     * of_int (quantity (ci_item item))) 0 (cart_rows u d)"
  obtain f where f: "calculateFees sub (Num dfee) = Inr f"
    by (simp add: calculateFees_def Let_def)
  define io where "io = \<lparr>o_userId = u, status = ''pending'', o_subtotal = sub,
                                 o_platformFee = platformFee f,
                                 o_processingFee = processingFee f,
                                 o_deliveryFee = Num dfee, o_total = total f,
                                 deliveryOption = ord_deliveryOption req,
                                 deliveryAddress = ord_deliveryAddress req,
                                 deliveryTime =
                                   (case ord_deliveryTime req of
                                      None \<Rightarrow> None
                                    | Some t \<Rightarrow> if t = 0 then None else Some t),
                                 stripePaymentIntentId = None\<rparr>"
  define ord where "ord = insert_order.extend io (order.fields uuid now now)"
  define its where "its = orderItemsData ids uuid
     (map (\<lambda>item. \<lparr>d_productId = p_id (pwp_product (ci_product item)),
                                         d_quantity = quantity (ci_item item),
                                         d_unitPrice = price (pwp_product (ci_product item)),
                                         d_totalPrice = price (pwp_product (ci_product item))
                                           * of_int (quantity (ci_item item))\<rparr>) (cart_rows u d))"
  have 1: "o_id ord = uuid" "o_userId ord = u" "o_subtotal ord = sub"
    by (simp_all add: ord_def io_def order_ext_sel)
  have 2: "sub = sum_list (map (\<lambda>i. price (pwp_product (ci_product i))
                                              * of_int (quantity (ci_item i))) (cart_rows u d))"
    by (simp add: sub_def foldl_add_sum_list)
  have 3: "map totalPrice its = map (\<lambda>i. price (pwp_product (ci_product i))
                                              * of_int (quantity (ci_item i))) (cart_rows u d)"
       "map unitPrice its = map (\<lambda>i. price (pwp_product (ci_product i))) (cart_rows u d)"
       "map oi_quantity its = map (\<lambda>i. quantity (ci_item i)) (cart_rows u d)"
       "map oi_productId its = map (\<lambda>i. p_id (pwp_product (ci_product i))) (cart_rows u d)"
       "map oi_orderId its = map (\<lambda>_. uuid) (cart_rows u d)"
    by (simp_all add: its_def orderItemsData_columns comp_def)
  have 4: "post_orders fl uuid ids now req d =
             (case fl SelectCartItems of
                Some m \<Rightarrow> (Inl (Status 400 m), d)
              | None \<Rightarrow>
             (case fl InsertOrder of
                Some m \<Rightarrow> (Inl (Status 400 m), d)
              | None \<Rightarrow>
             (case fl InsertOrderItems of
                Some m \<Rightarrow> (Inl (Status 400 m), d\<lparr>orders := orders d @ [ord]\<rparr>)
              | None \<Rightarrow>
             (case fl DeleteCart of
                Some m \<Rightarrow>
                  (Inl (Status 400 m),
                   d\<lparr>orders := orders d @ [ord], orderItems := orderItems d @ its\<rparr>)
              | None \<Rightarrow>
                  (Inr ord,
                   d\<lparr>orders := orders d @ [ord], orderItems := orderItems d @ its,
                     cart := filter (\<lambda>c. c_userId c \<noteq> u) (cart d)\<rparr>)))))"
    using u rows fee f
    unfolding post_orders_def getCartItems_def createOrder_def addOrderItems_def clearCart_def
    by (simp add: Let_def sub_def [symmetric] io_def [symmetric] ord_def [symmetric]
          its_def [symmetric] 1 split: option.splits)
  show ?thesis
    using 1 2 3 4 by blast
qed


lemma or_zero_defined: "or_zero v \<noteq> Undefined"
  by (cases v) simp_all

lemma post_orders_created:
  assumes "post_orders fl uuid ids now req d = (Inr ord, d')"
  shows "\<exists>u dfee. req_user req = Some u \<and> cart_rows u d \<noteq> []
           \<and> or_zero (deliveryFees (ord_deliveryOption req)) = Num dfee
           \<and> fl SelectCartItems = None \<and> fl InsertOrder = None
           \<and> fl InsertOrderItems = None \<and> fl DeleteCart = None"
proof -
  from assms obtain u where u: "req_user req = Some u"
    by (cases "req_user req") (simp_all add: post_orders_def)
  from assms u have sel: "fl SelectCartItems = None"
    by (cases "fl SelectCartItems") (simp_all add: post_orders_def getCartItems_def)
  from assms u sel have rows: "cart_rows u d \<noteq> []"
    by (auto simp: post_orders_def getCartItems_def)
  from assms u sel rows obtain dfee
    where fee: "or_zero (deliveryFees (ord_deliveryOption req)) = Num dfee"
    by (cases "or_zero (deliveryFees (ord_deliveryOption req))")
       (simp_all add: post_orders_def getCartItems_def calculateFees_def Let_def or_zero_defined)
  from post_orders_trace [OF u rows fee, of uuid fl ids now] assms sel
  have "fl InsertOrder = None \<and> fl InsertOrderItems = None \<and> fl DeleteCart = None"
    by (auto split: option.splits)
  with u sel rows fee show ?thesis by blast
qed

lemma cart_rows_cleared:
  "cart_rows u (d\<lparr>cart := filter (\<lambda>c. c_userId c \<noteq> u) (cart d)\<rparr>) = []"
  by (simp add: cart_rows_def)

lemma columns_pointwise:
  fixes f g :: "'a \<Rightarrow> rat" and h :: "'a \<Rightarrow> int"
  assumes "map f xs = map f' ys" and "map g xs = map g' ys" and "map h xs = map h' ys"
    and "\<And>y. f' y = g' y * of_int (h' y)"
  shows "\<forall>x\<in>set xs. f x = g x * of_int (h x)"
proof
  fix x assume "x \<in> set xs"
  then obtain k where k: "k < length xs" "x = xs ! k"
    by (auto simp: in_set_conv_nth)
  from assms(1) have len: "length xs = length ys"
    by (metis length_map)
  have "f x = map f xs ! k" "g x = map g xs ! k" "h x = map h xs ! k"
    using k by simp_all
  with assms k len show "f x = g x * of_int (h x)"
    by simp
qed

lemma const_column: "map f xs = map (\<lambda>_. c) ys \<Longrightarrow> \<forall>x\<in>set xs. f x = c"
  by (metis (no_types, lifting) ex_map_conv in_set_conv_nth length_map nth_map nth_mem)

text \<open>
  C7. Whenever the checkout creates an order (it answers with the order), the cart it
  read was not empty, the user's cart is empty afterwards, the order is stored, and the
  order items added are one per cart row, each with a total price equal to the product's
  unit price times the cart quantity; the order's subtotal is the sum of those totals.
\<close>

theorem order_from_cart:
  assumes "post_orders fl uuid ids now req d = (Inr ord, d')"
  shows "\<exists>u its. req_user req = Some u
           \<and> cart_rows u d \<noteq> []
           \<and> filter (\<lambda>c. c_userId c = u) (cart d') = [] \<and> cart_rows u d' = []
           \<and> ord \<in> set (orders d') \<and> orderItems d' = orderItems d @ its
           \<and> map totalPrice its = map (\<lambda>i. price (pwp_product (ci_product i))
                                             * of_int (quantity (ci_item i))) (cart_rows u d)
           \<and> (\<forall>it\<in>set its. oi_orderId it = o_id ord
                             \<and> totalPrice it = unitPrice it * of_int (oi_quantity it))
           \<and> o_subtotal ord = sum_list (map totalPrice its)"
proof -
  from post_orders_created [OF assms] obtain u dfee
    where u: "req_user req = Some u" and rows: "cart_rows u d \<noteq> []"
      and fee: "or_zero (deliveryFees (ord_deliveryOption req)) = Num dfee"
      and ok: "fl SelectCartItems = None" "fl InsertOrder = None"
              "fl InsertOrderItems = None" "fl DeleteCart = None"
    by blast
  from post_orders_trace [OF u rows fee, of uuid fl ids now] obtain ord' its
    where id: "o_id ord' = uuid"
      and sub: "o_subtotal ord' = sum_list (map (\<lambda>i. price (pwp_product (ci_product i))
                                              * of_int (quantity (ci_item i))) (cart_rows u d))"
      and tp: "map totalPrice its = map (\<lambda>i. price (pwp_product (ci_product i))
                                              * of_int (quantity (ci_item i))) (cart_rows u d)"
      and up: "map unitPrice its = map (\<lambda>i. price (pwp_product (ci_product i))) (cart_rows u d)"
      and qu: "map oi_quantity its = map (\<lambda>i. quantity (ci_item i)) (cart_rows u d)"
      and oi: "map oi_orderId its = map (\<lambda>_. uuid) (cart_rows u d)"
      and run: "post_orders fl uuid ids now req d =
                  (Inr ord', d\<lparr>orders := orders d @ [ord'], orderItems := orderItems d @ its,
                     cart := filter (\<lambda>c. c_userId c \<noteq> u) (cart d)\<rparr>)"
    using ok by auto
  from run assms have ord: "ord = ord'"
    and d': "d' = d\<lparr>orders := orders d @ [ord'], orderItems := orderItems d @ its,
                     cart := filter (\<lambda>c. c_userId c \<noteq> u) (cart d)\<rparr>"
    by simp_all
  have a: "filter (\<lambda>c. c_userId c = u) (cart d') = []" by (simp add: d')
  have b: "cart_rows u d' = []" by (simp add: d' cart_rows_def)
  have c: "ord \<in> set (orders d')" "orderItems d' = orderItems d @ its"
    by (simp_all add: d' ord)
  have e: "\<forall>it\<in>set its. totalPrice it = unitPrice it * of_int (oi_quantity it)"
    by (rule columns_pointwise [OF tp up qu]) simp
  have f: "\<forall>it\<in>set its. oi_orderId it = o_id ord"
    using const_column [OF oi] by (simp add: ord id)
  have g: "o_subtotal ord = sum_list (map totalPrice its)"
    by (simp add: ord sub tp)
  show ?thesis
    using u rows a b c tp e f g by blast
qed


theorem order_from_cart_witness:
  "\<exists>ord d' u its.
       post_orders no_faults ''order-1'' sample_ids 5000 sample_checkout sample_db = (Inr ord, d')
     \<and> req_user sample_checkout = Some u
           \<and> cart_rows u sample_db \<noteq> []
           \<and> filter (\<lambda>c. c_userId c = u) (cart d') = [] \<and> cart_rows u d' = []
           \<and> ord \<in> set (orders d') \<and> orderItems d' = orderItems sample_db @ its
           \<and> map totalPrice its = map (\<lambda>i. price (pwp_product (ci_product i))
                                             * of_int (quantity (ci_item i))) (cart_rows u sample_db)
           \<and> (\<forall>it\<in>set its. oi_orderId it = o_id ord
                             \<and> totalPrice it = unitPrice it * of_int (oi_quantity it))
           \<and> o_subtotal ord = sum_list (map totalPrice its)"
proof -
  have "case post_orders no_faults ''order-1'' sample_ids 5000 sample_checkout sample_db of
          (Inr _, _) \<Rightarrow> True | (Inl _, _) \<Rightarrow> False"
    by code_simp
  then obtain ord d'
    where run: "post_orders no_faults ''order-1'' sample_ids 5000 sample_checkout sample_db
                  = (Inr ord, d')"
    by (auto split: prod.splits sum.splits)
  from order_from_cart [OF run] run show ?thesis by blast
qed

text \<open>
  C3 (as amended). The checkout is not atomic: it sends its four statements one after
  the other, and a statement that is rejected ends the request with status 400 while the
  statements before it stay in effect. For an authenticated user with a non-empty cart
  (and a delivery option whose fee lookup gives a number): a rejected cart read or order
  insert leaves the database unchanged; a rejected insert of the order items leaves the
  new order row behind, without items and with the cart untouched; a rejected cart
  delete leaves the order and its items behind with the cart untouched; when nothing is
  rejected the order and one item per cart row are stored and the user's cart rows are
  deleted.
\<close>

theorem checkout_without_rollback:
  assumes "req_user req = Some u" and "cart_rows u d \<noteq> []"
    and "ord_deliveryOption req \<notin> set object_prototype_keys"
  shows "\<exists>ord its. length its = length (cart_rows u d) \<and>
           post_orders fl uuid ids now req d =
             (case fl SelectCartItems of
                Some m \<Rightarrow> (Inl (Status 400 m), d)
              | None \<Rightarrow>
             (case fl InsertOrder of
                Some m \<Rightarrow> (Inl (Status 400 m), d)
              | None \<Rightarrow>
             (case fl InsertOrderItems of
                Some m \<Rightarrow> (Inl (Status 400 m), d\<lparr>orders := orders d @ [ord]\<rparr>)
              | None \<Rightarrow>
             (case fl DeleteCart of
                Some m \<Rightarrow>
                  (Inl (Status 400 m),
                   d\<lparr>orders := orders d @ [ord], orderItems := orderItems d @ its\<rparr>)
              | None \<Rightarrow>
                  (Inr ord,
                   d\<lparr>orders := orders d @ [ord], orderItems := orderItems d @ its,
                     cart := filter (\<lambda>c. c_userId c \<noteq> u) (cart d)\<rparr>)))))"
proof -
  from assms(3) obtain dfee where fee: "or_zero (deliveryFees (ord_deliveryOption req)) = Num dfee"
    using not_inherited_fee by blast
  from post_orders_trace [OF assms(1,2) fee, of uuid fl ids now] obtain ord its
    where tp: "map totalPrice its = map (\<lambda>i. price (pwp_product (ci_product i))
                                              * of_int (quantity (ci_item i))) (cart_rows u d)"
      and run: "post_orders fl uuid ids now req d =
             (case fl SelectCartItems of
                Some m \<Rightarrow> (Inl (Status 400 m), d)
              | None \<Rightarrow>
             (case fl InsertOrder of
                Some m \<Rightarrow> (Inl (Status 400 m), d)
              | None \<Rightarrow>
             (case fl InsertOrderItems of
                Some m \<Rightarrow> (Inl (Status 400 m), d\<lparr>orders := orders d @ [ord]\<rparr>)
              | None \<Rightarrow>
             (case fl DeleteCart of
                Some m \<Rightarrow>
                  (Inl (Status 400 m),
                   d\<lparr>orders := orders d @ [ord], orderItems := orderItems d @ its\<rparr>)
              | None \<Rightarrow>
                  (Inr ord,
                   d\<lparr>orders := orders d @ [ord], orderItems := orderItems d @ its,
                     cart := filter (\<lambda>c. c_userId c \<noteq> u) (cart d)\<rparr>)))))"
    by blast
  from tp have "length its = length (cart_rows u d)"
    by (metis length_map)
  with run show ?thesis by blast
qed

theorem checkout_without_rollback_witness:
  "\<exists>ord (its :: order_item list). length its = length (cart_rows ''u1'' sample_db) \<and>
       post_orders items_insert_fails ''order-1'' sample_ids 5000 sample_checkout sample_db =
         (Inl (Status 400 ''connection terminated''),
          sample_db\<lparr>orders := orders sample_db @ [ord]\<rparr>)"
proof -
  have 1: "req_user sample_checkout = Some ''u1''"
    by (simp add: sample_checkout_def)
  have 2: "cart_rows ''u1'' sample_db \<noteq> []"
    by code_simp
  have 3: "ord_deliveryOption sample_checkout \<notin> set object_prototype_keys"
    by code_simp
  have 4: "items_insert_fails SelectCartItems = None" "items_insert_fails InsertOrder = None"
    "items_insert_fails InsertOrderItems = Some ''connection terminated''"
    by (simp_all add: items_insert_fails_def)
  from checkout_without_rollback [OF 1 2 3, of items_insert_fails "''order-1''" sample_ids 5000]
  show ?thesis
    unfolding 4 by simp
qed

text \<open>
  C3 as stated fails: when the insert of the order items is rejected, the request ends
  with status 400 and the order table has gained the row \<^verbatim>\<open>order-1\<close>, with no items and
  the cart as before.
\<close>

theorem failed_item_insert_keeps_order:
  "fst (post_orders items_insert_fails ''order-1'' sample_ids 5000 sample_checkout sample_db)
     = Inl (Status 400 ''connection terminated'')
   \<and> orders sample_db = []
   \<and> map o_id (orders (snd (post_orders items_insert_fails ''order-1'' sample_ids 5000
                               sample_checkout sample_db))) = [''order-1'']
   \<and> orderItems (snd (post_orders items_insert_fails ''order-1'' sample_ids 5000
                               sample_checkout sample_db)) = []
   \<and> cart (snd (post_orders items_insert_fails ''order-1'' sample_ids 5000
                               sample_checkout sample_db)) = cart sample_db"
  by code_simp

section \<open>The cart table: one row per user and product\<close>

















section \<open>Search: filters, ordering and distance\<close>



lemma matches_no_origin:
  "matches pg q None r c t = matches pg q None None c t"
  by (rule ext) (simp add: matches_def)


lemma matches_available_only:
  assumes "c = None \<or> c = Some []" and "t = None \<or> t = Some []"
  shows "matches pg [] None r c t = (\<lambda>pp. available (pwp_product pp) = Some True)"
  using assms by (auto simp: matches_def fun_eq_iff)


lemma search_no_origin:
  "origin lat lng = None \<Longrightarrow>
   searchProducts pg q lat lng r c t d =
     sort_key (\<lambda>h. - createdAt (hit_product h))
       (map (\<lambda>pp. \<lparr>hit_product = pwp_product pp, hit_producer = pwp_producer pp,
                    distance = Some 0\<rparr>)
          (filter (matches pg q None None c t) (concat (map (with_producer d) (products d)))))"
  by (simp add: searchProducts_def Let_def matches_no_origin [of pg q r])


lemma sorted_desc:
  fixes f :: "'a \<Rightarrow> int"
  shows "sorted (map (\<lambda>h. - f h) xs) = sorted_wrt (\<lambda>a b. f b \<le> f a) xs"
  by (simp add: sorted_map)

lemma joined_products:
  assumes "\<forall>p\<in>set ps. length (filter (\<lambda>pr. pr_id pr = producerId p) (producers d)) = 1"
  shows "map pwp_product (filter (\<lambda>pp. P (pwp_product pp)) (concat (map (with_producer d) ps)))
           = filter P ps"
  using assms
proof (induction ps)
  case Nil
  then show ?case by simp
next
  case (Cons p ps)
  from Cons.prems obtain pr where "filter (\<lambda>pr. pr_id pr = producerId p) (producers d) = [pr]"
    by (auto simp: length_Suc_conv)
  then have "with_producer d p = [\<lparr>pwp_product = p, pwp_producer = pr\<rparr>]"
    by (simp add: with_producer_def)
  with Cons show ?case by simp
qed


text \<open>
  C8 (as amended). A search with an empty query string, no origin location and no
  category or tag filter (each absent or empty) returns exactly the available products,
  each once (every product row having exactly one producer row, as the keys of the
  schema require), ordered by creation time descending, each with distance 0.
\<close>

theorem search_all_available_by_recency:
  assumes "products_have_producer d"
    and "categoryArg = None \<or> categoryArg = Some []"
    and "tagsArg = None \<or> tagsArg = Some []"
  shows "mset (map hit_product (searchProducts pg [] None None radiusKm categoryArg tagsArg d))
           = mset (filter (\<lambda>p. available p = Some True) (products d))
       \<and> sorted_wrt (\<lambda>a b. createdAt (hit_product b) \<le> createdAt (hit_product a))
           (searchProducts pg [] None None radiusKm categoryArg tagsArg d)
       \<and> (\<forall>h\<in>set (searchProducts pg [] None None radiusKm categoryArg tagsArg d).
             distance h = Some 0)"
proof -
  let ?rows = "filter (\<lambda>pp. available (pwp_product pp) = Some True)
                 (concat (map (with_producer d) (products d)))"
  let ?hits = "map (\<lambda>pp. \<lparr>hit_product = pwp_product pp, hit_producer = pwp_producer pp,
                            distance = Some 0\<rparr>) ?rows"
  have run: "searchProducts pg [] None None radiusKm categoryArg tagsArg d
               = sort_key (\<lambda>h. - createdAt (hit_product h)) ?hits"
    by (simp add: search_no_origin origin_def matches_available_only [OF assms(2,3)])
  have "map hit_product ?hits = map pwp_product ?rows"
    by (simp add: comp_def)
  also have "\<dots> = filter (\<lambda>p. available p = Some True) (products d)"
    using assms(1) unfolding products_have_producer_def by (rule joined_products)
  finally have "map hit_product ?hits = filter (\<lambda>p. available p = Some True) (products d)" .
  then have "image_mset hit_product (mset ?hits)
               = mset (filter (\<lambda>p. available p = Some True) (products d))"
    by (simp only: flip: mset_map)
  then have a: "mset (map hit_product (sort_key (\<lambda>h. - createdAt (hit_product h)) ?hits))
                     = mset (filter (\<lambda>p. available p = Some True) (products d))"
    by (simp only: mset_map mset_sort)
  have b: "sorted_wrt (\<lambda>a b. createdAt (hit_product b) \<le> createdAt (hit_product a))
             (sort_key (\<lambda>h. - createdAt (hit_product h)) ?hits)"
    using sorted_sort_key [of "\<lambda>h. - createdAt (hit_product h)" ?hits]
    by (simp add: sorted_map)
  have c: "\<forall>h\<in>set (sort_key (\<lambda>h. - createdAt (hit_product h)) ?hits). distance h = Some 0"
    by (simp only: set_sort) auto
  show ?thesis
    unfolding run using a b c by blast
qed

theorem search_all_available_by_recency_witness:
  "mset (map hit_product (searchProducts sample_pg [] None None None None None sample_db))
           = mset (filter (\<lambda>p. available p = Some True) (products sample_db))
   \<and> sorted_wrt (\<lambda>a b. createdAt (hit_product b) \<le> createdAt (hit_product a))
           (searchProducts sample_pg [] None None None None None sample_db)
   \<and> map (p_id \<circ> hit_product) (searchProducts sample_pg [] None None None None None sample_db)
        = [''butter'', ''apples'']"
proof -
  have wf: "products_have_producer sample_db"
    by code_simp
  have ids: "map (p_id \<circ> hit_product)
               (searchProducts sample_pg [] None None None None None sample_db)
             = [''butter'', ''apples'']"
    by code_simp
  from search_all_available_by_recency [OF wf, of None None sample_pg None]
  have "mset (map hit_product (searchProducts sample_pg [] None None None None None sample_db))
           = mset (filter (\<lambda>p. available p = Some True) (products sample_db))"
    and "sorted_wrt (\<lambda>a b. createdAt (hit_product b) \<le> createdAt (hit_product a))
           (searchProducts sample_pg [] None None None None None sample_db)"
    by simp_all
  with ids show ?thesis by (intro conjI)
qed

text \<open>
  C8 as stated fails: with an empty query and no origin but the category \<^verbatim>\<open>dairy\<close>, the
  search returns only the butter, while apples and butter are both available.
\<close>

theorem category_filter_drops_available:
  "map (p_id \<circ> hit_product)
     (searchProducts sample_pg [] None None None (Some ''dairy'') None sample_db) = [''butter'']
   \<and> map p_id (filter (\<lambda>p. available p = Some True) (products sample_db))
       = [''apples'', ''butter'']"
  by code_simp






text \<open>
  C6. The claim, that a search given an origin and a radius returns only products of
  producers within the radius, is what the \<^verbatim>\<open>ST_DWithin\<close> condition is for (lemma
  \<open>within_radius\<close>); the code misses it for an origin on the equator or the prime
  meridian, where \<^verbatim>\<open>lat && lng && radiusKm\<close> is false. With latitude 0, longitude 10 and
  a radius of 5 km the search returns the products of both producers, 45 and 46 degrees
  of latitude away (5003775 metres for the nearer one).
\<close>

theorem equator_origin_skips_radius_filter:
  "map (p_id \<circ> hit_product)
     (searchProducts sample_pg [] (Some 0) (Some 10) (Some 5) None None sample_db)
     = [''butter'', ''apples'']
   \<and> map (location \<circ> hit_producer)
       (searchProducts sample_pg [] (Some 0) (Some 10) (Some 5) None None sample_db)
     = [Some (10, 46), Some (10, 45)]
   \<and> st_distance sample_pg (10, 0) (10, 45) = 5003775
   \<and> (5003775 :: rat) > 5 * 1000"
  by code_simp

end
